theory Spec2Isabelle
  imports Complex_Main
begin

section \<open>Vectors and colours\<close>

text \<open>
  The ray caster of \<^verbatim>\<open>src/main.cpp\<close> computes on Qt's \<^verbatim>\<open>QVector3D\<close>, a triple of
  \<^verbatim>\<open>float\<close>s. The scalars are taken here as real numbers: rounding and infinities of
  IEEE arithmetic are outside this development, and every statement below is a statement
  about the arithmetic the program writes down, carried out exactly. The one not-a-number
  that is followed is the result of \<^verbatim>\<open>std::acos\<close> outside its domain, in the section on
  lights.

  \<^verbatim>\<open>QVector3D\<close> itself is library code. Its operations are the componentwise ones;
  \<^verbatim>\<open>normalized()\<close> divides by the length and gives the null vector for the null vector
  (Qt tests the length before dividing).
\<close>

datatype QVector3D = QVector3D (xp: real) (yp: real) (zp: real)

type_synonym Color = QVector3D

text \<open>\<^verbatim>\<open>a + b\<close>, \<^verbatim>\<open>a - b\<close>, \<^verbatim>\<open>a * f\<close> (also \<^verbatim>\<open>f * a\<close>) and the componentwise \<^verbatim>\<open>a * b\<close>.\<close>

definition vadd :: "QVector3D \<Rightarrow> QVector3D \<Rightarrow> QVector3D" where
  "vadd a b = QVector3D (xp a + xp b) (yp a + yp b) (zp a + zp b)"

definition vsub :: "QVector3D \<Rightarrow> QVector3D \<Rightarrow> QVector3D" where
  "vsub a b = QVector3D (xp a - xp b) (yp a - yp b) (zp a - zp b)"

definition scaled :: "QVector3D \<Rightarrow> real \<Rightarrow> QVector3D" where
  "scaled a f = QVector3D (xp a * f) (yp a * f) (zp a * f)"

definition vmul :: "QVector3D \<Rightarrow> QVector3D \<Rightarrow> QVector3D" where
  "vmul a b = QVector3D (xp a * xp b) (yp a * yp b) (zp a * zp b)"

definition dotProduct :: "QVector3D \<Rightarrow> QVector3D \<Rightarrow> real" where
  "dotProduct a b = xp a * xp b + yp a * yp b + zp a * zp b"

definition lengthSquared :: "QVector3D \<Rightarrow> real" where
  "lengthSquared a = xp a * xp a + yp a * yp a + zp a * zp a"

definition vlength :: "QVector3D \<Rightarrow> real" where
  "vlength a = sqrt (lengthSquared a)"

definition normalized :: "QVector3D \<Rightarrow> QVector3D" where
  "normalized a =
     (let len = vlength a in
      if len = 0 then QVector3D 0 0 0
      else QVector3D (xp a / len) (yp a / len) (zp a / len))"

text \<open>\<^verbatim>\<open>std::numeric_limits<float>::max()\<close>, the largest finite \<^verbatim>\<open>float\<close>.\<close>

definition FLT_MAX :: real where
  "FLT_MAX = 340282346638528859811704183484516925440"

section \<open>Lights\<close>

text \<open>
  \<^verbatim>\<open>Light\<close> is an abstract class with the fields \<^verbatim>\<open>color\<close> and \<^verbatim>\<open>center\<close>; \<^verbatim>\<open>Bulb\<close> is
  its only subclass, so the class hierarchy is a datatype with one constructor.
\<close>

datatype Light = Bulb (light_center: QVector3D) (light_color: Color)

text \<open>
  \<^verbatim>\<open>Bulb::power\<close>. \<^verbatim>\<open>M_PI_2\<close> is \<open>pi / 2\<close>. \<^verbatim>\<open>std::acos\<close> is \<^const>\<open>arccos\<close>, which is the
  program's function on the interval from \<open>-1\<close> to \<open>1\<close> only: outside it the program gets
  a not-a-number, and \<open>Bulb_power\<close> says nothing about the result. \<open>Bulb_power_or_nan\<close>
  below is the function with that case written out.
\<close>

definition Bulb_power :: "Light \<Rightarrow> QVector3D \<Rightarrow> QVector3D \<Rightarrow> real" where
  "Bulb_power light origin normalDirection =
     (let v1 = normalized (vsub origin (light_center light));
          v2 = normalDirection;
          rad = arccos (dotProduct v1 v2) in
      if \<bar>rad\<bar> > pi / 2 then 0
      else 1 - \<bar>rad\<bar> / (pi / 2))"

text \<open>
  \<^verbatim>\<open>std::acos\<close> with its domain: the result is a not-a-number, here \<open>None\<close>, for an
  argument below \<open>-1\<close> or above \<open>1\<close>.
\<close>

definition std_acos :: "real \<Rightarrow> real option" where
  "std_acos x = (if - 1 \<le> x \<and> x \<le> 1 then Some (arccos x) else None)"

text \<open>
  \<^verbatim>\<open>Bulb::power\<close> with the not-a-number as a result. When \<^verbatim>\<open>rad\<close> is a not-a-number, the
  comparison of line 41 is false, so line 43 is reached and \<^verbatim>\<open>1 - std::abs(rad) / M_PI_2\<close>
  is a not-a-number again. Nothing between the dot product and \<^verbatim>\<open>std::acos\<close> brings the
  argument back into the interval.
\<close>

definition Bulb_power_or_nan :: "Light \<Rightarrow> QVector3D \<Rightarrow> QVector3D \<Rightarrow> real option" where
  "Bulb_power_or_nan light origin normalDirection =
     (let v1 = normalized (vsub origin (light_center light));
          v2 = normalDirection in
      case std_acos (dotProduct v1 v2) of
        None \<Rightarrow> None
      | Some rad \<Rightarrow>
          if \<bar>rad\<bar> > pi / 2 then Some 0
          else Some (1 - \<bar>rad\<bar> / (pi / 2)))"

section \<open>Shapes\<close>

text \<open>
  \<^verbatim>\<open>Shape\<close> has the fields \<^verbatim>\<open>color\<close> and \<^verbatim>\<open>mirror\<close>; its only subclass \<^verbatim>\<open>Sphere\<close> adds
  \<^verbatim>\<open>center_\<close> and \<^verbatim>\<open>radius_\<close> (here \<open>center\<close> and \<open>radius\<close>; the fields of a light are
  \<open>light_center\<close> and \<open>light_color\<close>).
\<close>

datatype Shape = Sphere (center: QVector3D) (radius: real) (color: Color) (mirror: real)

text \<open>
  The three out-parameters of \<^verbatim>\<open>Sphere::intersects\<close>, written when the result is
  \<^verbatim>\<open>true\<close>. A call with null pointers runs the same statements and returns the same
  boolean, so the existence-only query is \<open>intersects \<dots> \<noteq> None\<close>.
\<close>

record hit =
  intersection :: QVector3D
  normal :: QVector3D
  reflection :: QVector3D

definition intersects :: "Shape \<Rightarrow> QVector3D \<Rightarrow> QVector3D \<Rightarrow> hit option" where
  "intersects shape origin direction =
     (let m = vsub origin (center shape);
          b = dotProduct direction m;
          c = dotProduct m m - radius shape * radius shape in
      if c > 0 \<and> b > 0 then None
      else
        let discr = b * b - c in
        if discr < 0 then None
        else
          let t = max 0 (- b - sqrt discr);
              intersection = vadd origin (scaled direction t);
              normal = normalized (vsub intersection (center shape));
              reflection =
                vsub direction (scaled (scaled normal 2) (dotProduct direction normal))
          in Some \<lparr>intersection = intersection, normal = normal, reflection = reflection\<rparr>)"

section \<open>The caster\<close>

text \<open>
  \<^verbatim>\<open>QVector::at\<close> and \<^verbatim>\<open>QVector::removeAt\<close> assert that the index is in range. A failed
  assertion is the only way the caster could stop without a colour, so it is a value of
  the model. (\<open>at\<close> is taken in HOL, hence \<open>at_index\<close>.)
\<close>

datatype error = IndexOutOfRange

definition at_index :: "'a list \<Rightarrow> int \<Rightarrow> error + 'a" where
  "at_index vector index =
     (if 0 \<le> index \<and> index < int (length vector) then Inr (vector ! nat index)
      else Inl IndexOutOfRange)"

definition allBut :: "'a list \<Rightarrow> int \<Rightarrow> error + 'a list" where
  "allBut vector index =
     (if 0 \<le> index \<and> index < int (length vector)
      then Inr (take (nat index) vector @ drop (Suc (nat index)) vector)
      else Inl IndexOutOfRange)"

text \<open>
  The second loop, lines 161 to 182, first: its inner loop, lines 163 to 173, which stops
  at the first hit.
\<close>

definition isBlocked :: "Shape list \<Rightarrow> QVector3D \<Rightarrow> Light \<Rightarrow> bool" where
  "isBlocked otherShapes intersectionOrigin light =
     list_ex (\<lambda>otherShape.
         intersects otherShape intersectionOrigin
           (normalized (vsub intersectionOrigin (light_center light))) \<noteq> None)
       otherShapes"

text \<open>One round of the second loop, lines 162 to 181.\<close>

definition light_step ::
  "Shape list \<Rightarrow> QVector3D \<Rightarrow> QVector3D \<Rightarrow> Color \<Rightarrow> Light \<Rightarrow> Color" where
  "light_step otherShapes intersectionOrigin normalDirection colorMask light =
     (if isBlocked otherShapes intersectionOrigin light then colorMask
      else
        let power = Bulb_power light intersectionOrigin normalDirection in
        if power \<le> 0 then colorMask
        else vadd colorMask (scaled (light_color light) power))"

definition colorMask ::
  "Shape list \<Rightarrow> Light list \<Rightarrow> QVector3D \<Rightarrow> QVector3D \<Rightarrow> Color \<Rightarrow> Color" where
  "colorMask otherShapes lights intersectionOrigin normalDirection colorOnFullShade =
     foldl (light_step otherShapes intersectionOrigin normalDirection)
       colorOnFullShade lights"

text \<open>Line 158, the blend of the surface's colour with the mirrored one.\<close>

definition blend :: "Shape \<Rightarrow> Color \<Rightarrow> Color" where
  "blend shape colorMirrored =
     vadd (scaled (color shape) (1 - mirror shape)) (scaled colorMirrored (mirror shape))"

text \<open>The local variables of \<^verbatim>\<open>cast\<close> that its first loop updates.\<close>

record search =
  shortestDistanceSquared :: real
  shapeIndex :: int
  intersectionOrigin :: QVector3D
  normalDirection :: QVector3D
  reflectionDirection :: QVector3D

definition search_init :: search where
  "search_init =
     \<lparr>shortestDistanceSquared = FLT_MAX, shapeIndex = - 1,
      intersectionOrigin = QVector3D 0 0 0,
      normalDirection = QVector3D 0 0 0,
      reflectionDirection = QVector3D 0 0 0\<rparr>"

text \<open>
  One round of the first loop, lines 124 to 142. The loop runs \<open>index\<close> from \<open>0\<close> below
  \<open>shapes.size()\<close>, so \<^verbatim>\<open>shapes.at(index)\<close> is in range there.
\<close>

definition search_step ::
  "Shape list \<Rightarrow> QVector3D \<Rightarrow> QVector3D \<Rightarrow> search \<Rightarrow> nat \<Rightarrow> search" where
  "search_step shapes origin direction st index =
     (case intersects (shapes ! index) origin direction of
        None \<Rightarrow> st
      | Some h \<Rightarrow>
          let distanceSquared = lengthSquared (vsub (intersection h) origin) in
          if distanceSquared \<ge> shortestDistanceSquared st then st
          else \<lparr>shortestDistanceSquared = distanceSquared, shapeIndex = int index,
                intersectionOrigin = intersection h,
                normalDirection = normal h,
                reflectionDirection = reflection h\<rparr>)"

definition nearest :: "Shape list \<Rightarrow> QVector3D \<Rightarrow> QVector3D \<Rightarrow> search" where
  "nearest shapes origin direction =
     foldl (search_step shapes origin direction) search_init [0..<length shapes]"

function cast ::
  "Shape list \<Rightarrow> Light list \<Rightarrow> QVector3D \<Rightarrow> QVector3D \<Rightarrow> Color \<Rightarrow> Color \<Rightarrow> error + Color"
where
  "cast shapes lights origin direction colorOnMiss colorOnFullShade =
     (let st = nearest shapes origin direction in
      if shapeIndex st < 0 then Inr colorOnMiss
      else
        case at_index shapes (shapeIndex st) of
          Inl e \<Rightarrow> Inl e
        | Inr shape \<Rightarrow>
            (case allBut shapes (shapeIndex st) of
               Inl e \<Rightarrow> Inl e
             | Inr otherShapes \<Rightarrow>
                 (case (if mirror shape > 0
                        then (case cast otherShapes lights (intersectionOrigin st)
                                     (reflectionDirection st) colorOnMiss colorOnFullShade of
                                Inl e \<Rightarrow> Inl e
                              | Inr colorMirrored \<Rightarrow> Inr (blend shape colorMirrored))
                        else Inr (color shape)) of
                    Inl e \<Rightarrow> Inl e
                  | Inr colorSelf \<Rightarrow>
                      Inr (vmul colorSelf
                             (colorMask otherShapes lights (intersectionOrigin st)
                                (normalDirection st) colorOnFullShade)))))"
  by pat_completeness auto
termination
proof (relation "measure (\<lambda>(shapes, lights, origin, direction, miss, shade). length shapes)")
  show "wf (measure (\<lambda>(shapes, lights, origin, direction, miss, shade). length shapes))"
    by simp
next
  fix shapes :: "Shape list" and lights :: "Light list"
    and origin direction colorOnMiss colorOnFullShade :: QVector3D
    and st :: search and shape :: Shape and otherShapes :: "Shape list"
  assume "st = nearest shapes origin direction"
    and "allBut shapes (shapeIndex st) = Inr otherShapes"
  then have "length otherShapes < length shapes"
    by (auto simp: allBut_def split: if_splits)
  then show "((otherShapes, lights, intersectionOrigin st, reflectionDirection st,
                colorOnMiss, colorOnFullShade),
              (shapes, lights, origin, direction, colorOnMiss, colorOnFullShade))
             \<in> measure (\<lambda>(shapes, lights, origin, direction, miss, shade). length shapes)"
    by simp
qed

declare cast.simps [simp del]

text \<open>
  The same function with a bound on the depth of the recursion: \<open>fuel\<close> is the number of
  activations of \<^verbatim>\<open>cast\<close> that may be open at once, the outermost one included, and
  \<open>None\<close> says that the bound was reached. It makes the depth of the recursion, which
  \<open>cast\<close> itself does not show, a thing to state theorems about.
\<close>

fun cast_fuel ::
  "nat \<Rightarrow> Shape list \<Rightarrow> Light list \<Rightarrow> QVector3D \<Rightarrow> QVector3D \<Rightarrow> Color \<Rightarrow> Color
     \<Rightarrow> (error + Color) option"
where
  "cast_fuel 0 shapes lights origin direction colorOnMiss colorOnFullShade = None"
| "cast_fuel (Suc fuel) shapes lights origin direction colorOnMiss colorOnFullShade =
     (let st = nearest shapes origin direction in
      if shapeIndex st < 0 then Some (Inr colorOnMiss)
      else
        case at_index shapes (shapeIndex st) of
          Inl e \<Rightarrow> Some (Inl e)
        | Inr shape \<Rightarrow>
            (case allBut shapes (shapeIndex st) of
               Inl e \<Rightarrow> Some (Inl e)
             | Inr otherShapes \<Rightarrow>
                 (case (if mirror shape > 0
                        then (case cast_fuel fuel otherShapes lights (intersectionOrigin st)
                                     (reflectionDirection st) colorOnMiss colorOnFullShade of
                                None \<Rightarrow> None
                              | Some (Inl e) \<Rightarrow> Some (Inl e)
                              | Some (Inr colorMirrored) \<Rightarrow>
                                  Some (Inr (blend shape colorMirrored)))
                        else Some (Inr (color shape))) of
                    None \<Rightarrow> None
                  | Some (Inl e) \<Rightarrow> Some (Inl e)
                  | Some (Inr colorSelf) \<Rightarrow>
                      Some (Inr (vmul colorSelf
                             (colorMask otherShapes lights (intersectionOrigin st)
                                (normalDirection st) colorOnFullShade))))))"

section \<open>Vector algebra\<close>

lemma lengthSquared_nonneg: "0 \<le> lengthSquared a"
  by (simp add: lengthSquared_def)

lemma vlength_nonneg: "0 \<le> vlength a"
  by (simp add: vlength_def lengthSquared_nonneg)

lemma vlength_sq: "vlength a * vlength a = lengthSquared a"
  by (simp add: vlength_def lengthSquared_nonneg)

lemma vlength_eq_1_iff: "vlength n = 1 \<longleftrightarrow> lengthSquared n = 1"
  by (simp add: vlength_def)

lemma lengthSquared_normalized:
  "lengthSquared (normalized a) = (if vlength a = 0 then 0 else 1)"
proof (cases "vlength a = 0")
  case True
  then show ?thesis by (simp add: normalized_def lengthSquared_def)
next
  case False
  have "lengthSquared (normalized a) = lengthSquared a / (vlength a * vlength a)"
    using False by (simp add: normalized_def Let_def lengthSquared_def add_divide_distrib)
  also have "\<dots> = 1" using False unfolding vlength_sq [symmetric] by simp
  finally show ?thesis using False by simp
qed

text \<open>
  The Cauchy-Schwarz inequality in three dimensions, by Lagrange's identity.
\<close>

lemma cauchy_schwarz:
  "(dotProduct a b)\<^sup>2 \<le> lengthSquared a * lengthSquared b"
proof -
  obtain a1 a2 a3 where a: "a = QVector3D a1 a2 a3" by (cases a)
  obtain b1 b2 b3 where b: "b = QVector3D b1 b2 b3" by (cases b)
  have "(a1*a1 + a2*a2 + a3*a3) * (b1*b1 + b2*b2 + b3*b3) - (a1*b1 + a2*b2 + a3*b3)\<^sup>2
        = (a1*b2 - a2*b1)\<^sup>2 + (a1*b3 - a3*b1)\<^sup>2 + (a2*b3 - a3*b2)\<^sup>2"
    by (simp add: power2_eq_square algebra_simps)
  moreover have "0 \<le> (a1*b2 - a2*b1)\<^sup>2 + (a1*b3 - a3*b1)\<^sup>2 + (a2*b3 - a3*b2)\<^sup>2"
    by simp
  ultimately have "(a1*b1 + a2*b2 + a3*b3)\<^sup>2 \<le> (a1*a1 + a2*a2 + a3*a3) * (b1*b1 + b2*b2 + b3*b3)"
    by linarith
  then show ?thesis
    unfolding a b dotProduct_def lengthSquared_def by simp
qed

lemma dotProduct_bounds:
  assumes "lengthSquared a \<le> 1" and "lengthSquared b \<le> 1"
  shows "- 1 \<le> dotProduct a b \<and> dotProduct a b \<le> 1"
proof -
  have "lengthSquared a * lengthSquared b \<le> 1 * 1"
    using assms lengthSquared_nonneg by (intro mult_mono) auto
  with cauchy_schwarz [of a b] have "(dotProduct a b)\<^sup>2 \<le> 1\<^sup>2" by simp
  then have "\<bar>dotProduct a b\<bar> \<le> 1"
    using abs_le_square_iff [of "dotProduct a b" 1] by simp
  then show ?thesis by auto
qed

text \<open>
  Both arguments of the dot product in \<^verbatim>\<open>Bulb::power\<close> are results of \<^verbatim>\<open>normalized()\<close> when
  \<^verbatim>\<open>cast\<close> calls it. In exact arithmetic the dot product is then in the domain of
  \<^verbatim>\<open>std::acos\<close>; a result of \<^verbatim>\<open>normalized()\<close> rounded to \<^verbatim>\<open>float\<close> need not have length
  \<open>1\<close>, and the section on the bulb shows what follows.
\<close>

lemma dotProduct_normalized_bounds:
  "- 1 \<le> dotProduct (normalized a) (normalized b) \<and> dotProduct (normalized a) (normalized b) \<le> 1"
  by (rule dotProduct_bounds) (simp_all add: lengthSquared_normalized)

section \<open>Sphere intersection\<close>

lemma intersects_None_iff:
  "intersects shape origin direction = None \<longleftrightarrow>
     (let m = vsub origin (center shape);
          b = dotProduct direction m;
          c = dotProduct m m - radius shape * radius shape in
      (c > 0 \<and> b > 0) \<or> b * b - c < 0)"
  by (simp add: intersects_def Let_def)

lemma intersects_reflection:
  "intersects shape origin direction = Some h \<Longrightarrow>
   reflection h = vsub direction (scaled (scaled (normal h) 2) (dotProduct direction (normal h)))"
  by (auto simp: intersects_def Let_def split: if_splits)

text \<open>
  Two rays that hit, and one that misses, for the examples below: the spheres \<open>A\<close>
  (centre \<open>(0, 0, 0)\<close>, radius \<open>1\<close>) and \<open>B\<close> (centre \<open>(-5, 0, 0)\<close>, radius \<open>1\<close>), the ray
  from \<open>(3, 0, 0)\<close> in direction \<open>(-1, 0, 0)\<close>, and the rays from the point \<open>(1, 0, 0)\<close> of
  \<open>A\<close>.
\<close>

lemma hit_A:
  "intersects (Sphere (QVector3D 0 0 0) 1 col mir) (QVector3D 3 0 0) (QVector3D (- 1) 0 0)
     = Some \<lparr>intersection = QVector3D 1 0 0, normal = QVector3D 1 0 0, reflection = QVector3D 1 0 0\<rparr>"
  by (simp add: intersects_def Let_def vsub_def vadd_def scaled_def dotProduct_def
        normalized_def vlength_def lengthSquared_def)

lemma hit_B:
  "intersects (Sphere (QVector3D (- 5) 0 0) 1 col mir) (QVector3D 3 0 0) (QVector3D (- 1) 0 0)
     = Some \<lparr>intersection = QVector3D (- 4) 0 0, normal = QVector3D 1 0 0, reflection = QVector3D 1 0 0\<rparr>"
  by (simp add: intersects_def Let_def vsub_def vadd_def scaled_def dotProduct_def
        normalized_def vlength_def lengthSquared_def)

lemma shadow_B:
  "intersects (Sphere (QVector3D (- 5) 0 0) 1 col mir) (QVector3D 1 0 0)
     (normalized (vsub (QVector3D 1 0 0) (QVector3D 2 0 0))) \<noteq> None"
  by (simp add: intersects_def Let_def vsub_def vadd_def scaled_def dotProduct_def
        normalized_def vlength_def lengthSquared_def)

lemma mirror_B:
  "intersects (Sphere (QVector3D (- 5) 0 0) 1 col mir) (QVector3D 1 0 0) (QVector3D 1 0 0) = None"
  by (simp add: intersects_def Let_def vsub_def dotProduct_def)

text \<open>
  Claim C1. \<^verbatim>\<open>Sphere::intersects\<close> is the quadratic algorithm of the specification: with
  \<open>m = origin - center\<close>, \<open>b = dot(direction, m)\<close> and \<open>c = dot(m, m) - radius\<^sup>2\<close>, there is no
  intersection when \<open>c > 0\<close> and \<open>b > 0\<close>, none when \<open>b\<^sup>2 - c < 0\<close>, and otherwise a hit at
  \<open>origin + direction * t\<close> for \<open>t = max(0, - b - sqrt(b\<^sup>2 - c))\<close>. It holds for every radius,
  positive or not.
\<close>

theorem intersects_quadratic:
  "let m = vsub origin (center shape);
       b = dotProduct direction m;
       c = dotProduct m m - (radius shape)\<^sup>2 in
     (c > 0 \<and> b > 0 \<longrightarrow> intersects shape origin direction = None) \<and>
     (b\<^sup>2 - c < 0 \<longrightarrow> intersects shape origin direction = None) \<and>
     (\<not> (c > 0 \<and> b > 0) \<and> \<not> b\<^sup>2 - c < 0 \<longrightarrow>
        (\<exists>h. intersects shape origin direction = Some h \<and>
             intersection h = vadd origin (scaled direction (max 0 (- b - sqrt (b\<^sup>2 - c))))))"
  by (simp add: intersects_def Let_def power2_eq_square)

text \<open>
  One ray for each of the three cases: rejected early, negative discriminant, hit at \<open>t = 2\<close>.
\<close>

theorem intersects_quadratic_witness:
  "intersects (Sphere (QVector3D 0 0 0) 1 (QVector3D 1 0 0) 0) (QVector3D 3 0 0) (QVector3D 1 0 0) = None \<and>
   intersects (Sphere (QVector3D 0 0 0) 1 (QVector3D 1 0 0) 0) (QVector3D 3 0 0) (QVector3D 0 1 0) = None \<and>
   (\<exists>h. intersects (Sphere (QVector3D 0 0 0) 1 (QVector3D 1 0 0) 0) (QVector3D 3 0 0) (QVector3D (- 1) 0 0) = Some h \<and>
        intersection h = QVector3D 1 0 0)"
  using intersects_quadratic [of "QVector3D 3 0 0" "Sphere (QVector3D 0 0 0) 1 (QVector3D 1 0 0) 0" "QVector3D 1 0 0"]
    intersects_quadratic [of "QVector3D 3 0 0" "Sphere (QVector3D 0 0 0) 1 (QVector3D 1 0 0) 0" "QVector3D 0 1 0"]
    intersects_quadratic [of "QVector3D 3 0 0" "Sphere (QVector3D 0 0 0) 1 (QVector3D 1 0 0) 0" "QVector3D (- 1) 0 0"]
  by (simp add: Let_def vsub_def vadd_def scaled_def dotProduct_def)

text \<open>
  Claim C2, as amended. The claim says that a ray from the centre of a sphere hits at
  distance \<open>radius\<close> with a unit normal. It does not: \<open>m\<close> is the null vector, so \<open>b = 0\<close>,
  the discriminant is \<open>radius\<^sup>2\<close> and \<open>- b - sqrt(radius\<^sup>2)\<close> is not positive, so the clamp gives
  \<open>t = 0\<close>. What holds for every sphere and every direction: the ray from the centre hits at
  the centre itself (distance \<open>0\<close> from the origin of the ray), the normal is the
  normalisation of the null vector, which is the null vector, and the reflected direction is
  the direction of the ray.
\<close>

theorem intersects_from_center:
  "intersects (Sphere c r col mir) c direction =
     Some \<lparr>intersection = c, normal = QVector3D 0 0 0, reflection = direction\<rparr>"
proof -
  have m: "vsub c c = QVector3D 0 0 0" by (simp add: vsub_def)
  have t: "max 0 (- sqrt (r * r)) = 0" by (simp add: max_def)
  have i: "vadd c (scaled direction 0) = c" by (cases c) (simp add: vadd_def scaled_def)
  have n: "normalized (QVector3D 0 0 0) = QVector3D 0 0 0"
    by (simp add: normalized_def vlength_def lengthSquared_def)
  have r: "vsub direction (scaled (scaled (QVector3D 0 0 0) 2) x) = direction" for x
    by (cases direction) (simp add: vsub_def scaled_def)
  show ?thesis
    by (simp add: intersects_def Let_def m dotProduct_def t i n r)
qed

text \<open>
  The claim as stated fails for the sphere of radius \<open>2\<close> at \<open>(0, 0, 0)\<close> and the direction
  \<open>(0, 0, 1)\<close>: the hit is at distance \<open>0\<close>, not \<open>2\<close>, and the normal has length \<open>0\<close> and is
  not the normalised direction.
\<close>

theorem intersects_from_center_counterexample:
  "intersects (Sphere (QVector3D 0 0 0) 2 (QVector3D 1 0 0) 0) (QVector3D 0 0 0) (QVector3D 0 0 1) =
     Some \<lparr>intersection = QVector3D 0 0 0, normal = QVector3D 0 0 0,
           reflection = QVector3D 0 0 1\<rparr> \<and>
   vlength (vsub (QVector3D 0 0 0) (QVector3D 0 0 0)) \<noteq> 2 \<and>
   vlength (QVector3D 0 0 0) \<noteq> 1 \<and>
   QVector3D 0 0 0 \<noteq> normalized (QVector3D 0 0 1)"
proof -
  have "max 0 (- sqrt (2 * 2)) = (0::real)" by (simp add: max_def)
  then show ?thesis
    by (simp add: intersects_def Let_def vsub_def vadd_def scaled_def dotProduct_def
        normalized_def vlength_def lengthSquared_def)
qed

text \<open>
  Claim C10. A ray whose origin is inside or on the sphere, \<open>dot(m, m) \<le> radius\<^sup>2\<close>, hits it
  whatever its direction: \<open>c \<le> 0\<close> rules the early rejection out and makes the discriminant
  at least \<open>b\<^sup>2\<close>.
\<close>

theorem intersects_inside:
  "dotProduct (vsub origin (center shape)) (vsub origin (center shape)) \<le> (radius shape)\<^sup>2
   \<Longrightarrow> \<exists>h. intersects shape origin direction = Some h"
proof -
  assume "dotProduct (vsub origin (center shape)) (vsub origin (center shape)) \<le> (radius shape)\<^sup>2"
  then have c: "dotProduct (vsub origin (center shape)) (vsub origin (center shape))
      - radius shape * radius shape \<le> 0"
    by (simp add: power2_eq_square)
  have "0 \<le> dotProduct direction (vsub origin (center shape)) * dotProduct direction (vsub origin (center shape))"
    by simp
  with c have "intersects shape origin direction \<noteq> None"
    unfolding intersects_None_iff Let_def by linarith
  then show ?thesis by auto
qed

theorem intersects_inside_witness:
  "\<exists>h. intersects (Sphere (QVector3D 0 0 0) 2 (QVector3D 1 0 0) 0) (QVector3D 1 0 0) (QVector3D 0 5 0) = Some h"
  using intersects_inside [of "QVector3D 1 0 0" "Sphere (QVector3D 0 0 0) 2 (QVector3D 1 0 0) 0" "QVector3D 0 5 0"]
  by (simp add: vsub_def dotProduct_def)

lemma reflection_dot:
  assumes "lengthSquared n = 1"
  shows "dotProduct (vsub d (scaled (scaled n 2) (dotProduct d n))) n = - dotProduct d n"
proof -
  have "dotProduct (vsub d (scaled (scaled n 2) (dotProduct d n))) n
      = dotProduct d n - 2 * dotProduct d n * lengthSquared n"
    by (simp add: dotProduct_def vsub_def scaled_def lengthSquared_def algebra_simps)
  with assms show ?thesis by simp
qed

lemma reflection_lengthSquared:
  assumes "lengthSquared n = 1"
  shows "lengthSquared (vsub d (scaled (scaled n 2) (dotProduct d n))) = lengthSquared d"
proof -
  have "lengthSquared (vsub d (scaled (scaled n 2) (dotProduct d n)))
      = lengthSquared d - 4 * (dotProduct d n)\<^sup>2 + 4 * (dotProduct d n)\<^sup>2 * lengthSquared n"
    by (simp add: dotProduct_def vsub_def scaled_def lengthSquared_def algebra_simps power2_eq_square)
  with assms show ?thesis by simp
qed

text \<open>
  Claim C8. For a hit with a normal of length \<open>1\<close>, the reflected direction has the
  opposite component along the normal, \<open>dot(reflection, normal) = - dot(direction, normal)\<close>,
  and the length of the direction.
\<close>

theorem reflection_flips_normal_component:
  assumes "intersects shape origin direction = Some h" and "vlength (normal h) = 1"
  shows "dotProduct (reflection h) (normal h) = - dotProduct direction (normal h) \<and>
         vlength (reflection h) = vlength direction"
proof -
  from assms(2) have n: "lengthSquared (normal h) = 1" by (simp add: vlength_eq_1_iff)
  show ?thesis
    unfolding intersects_reflection [OF assms(1)] vlength_def
    using reflection_dot [OF n] reflection_lengthSquared [OF n] by simp
qed

theorem reflection_flips_normal_component_witness:
  "dotProduct (QVector3D 1 0 0) (QVector3D 1 0 0) = - dotProduct (QVector3D (- 1) 0 0) (QVector3D 1 0 0) \<and>
   vlength (QVector3D 1 0 0) = vlength (QVector3D (- 1) 0 0)"
  using reflection_flips_normal_component [OF hit_A]
  by (simp add: vlength_def lengthSquared_def)

section \<open>Bulb power\<close>

lemma arccos_dot_bounds:
  assumes "vlength n = 1"
  shows "0 \<le> arccos (dotProduct (normalized a) n) \<and> arccos (dotProduct (normalized a) n) \<le> pi"
proof -
  from assms have "lengthSquared n \<le> 1" by (simp add: vlength_eq_1_iff)
  moreover have "lengthSquared (normalized a) \<le> 1" by (simp add: lengthSquared_normalized)
  ultimately have "- 1 \<le> dotProduct (normalized a) n \<and> dotProduct (normalized a) n \<le> 1"
    by (intro dotProduct_bounds)
  then show ?thesis by (simp add: arccos_lbound arccos_ubound)
qed


lemma Bulb_power_or_nan_number:
  assumes "- 1 \<le> dotProduct (normalized (vsub point (light_center light))) n"
    and "dotProduct (normalized (vsub point (light_center light))) n \<le> 1"
  shows "Bulb_power_or_nan light point n = Some (Bulb_power light point n)"
  using assms by (simp add: Bulb_power_or_nan_def Bulb_power_def std_acos_def Let_def)

lemma Bulb_power_or_nan_None_iff:
  "Bulb_power_or_nan light point n = None \<longleftrightarrow>
     dotProduct (normalized (vsub point (light_center light))) n < - 1 \<or>
     1 < dotProduct (normalized (vsub point (light_center light))) n"
  by (auto simp: Bulb_power_or_nan_def std_acos_def Let_def)

text \<open>
  For a normal whose length is \<open>1\<close> exactly, the dot product is in the domain of
  \<^verbatim>\<open>std::acos\<close> and the power is the one the specification describes, between \<open>0\<close> and
  \<open>1\<close>. This is a fact of exact arithmetic: the normals the program computes have
  \<^verbatim>\<open>float\<close> components, and of those only a few, such as the axis vectors, have length \<open>1\<close>
  exactly.
\<close>

lemma Bulb_power_exact_unit:
  assumes "vlength n = 1"
  shows "let angle = arccos (dotProduct (normalized (vsub point (light_center light))) n) in
           Bulb_power_or_nan light point n = Some (Bulb_power light point n) \<and>
           (angle > pi / 2 \<longrightarrow> Bulb_power light point n = 0) \<and>
           (\<not> angle > pi / 2 \<longrightarrow> Bulb_power light point n = 1 - \<bar>angle\<bar> / (pi / 2)) \<and>
           0 \<le> Bulb_power light point n \<and> Bulb_power light point n \<le> 1"
proof -
  define angle where "angle = arccos (dotProduct (normalized (vsub point (light_center light))) n)"
  have d: "- 1 \<le> dotProduct (normalized (vsub point (light_center light))) n \<and>
           dotProduct (normalized (vsub point (light_center light))) n \<le> 1"
    using assms by (intro dotProduct_bounds) (simp_all add: lengthSquared_normalized vlength_eq_1_iff)
  then have s: "Bulb_power_or_nan light point n = Some (Bulb_power light point n)"
    by (intro Bulb_power_or_nan_number) simp_all
  have a: "0 \<le> angle" "angle \<le> pi"
    using arccos_dot_bounds [OF assms, of "vsub point (light_center light)"]
    by (simp_all add: angle_def)
  have p: "Bulb_power light point n = (if angle > pi / 2 then 0 else 1 - angle / (pi / 2))"
    using a by (simp add: Bulb_power_def Let_def angle_def)
  have "0 \<le> 1 - angle / (pi / 2)" if "\<not> angle > pi / 2"
    using that a by (simp add: field_simps)
  moreover have "1 - angle / (pi / 2) \<le> 1"
    using a by (simp add: field_simps)
  ultimately show ?thesis
    using a s unfolding Let_def angle_def [symmetric] p by auto
qed

text \<open>
  The normal that the program computes for the direction \<open>(2, 0, 3)\<close>: \<open>2 / sqrt 13\<close> and
  \<open>3 / sqrt 13\<close> rounded to \<^verbatim>\<open>float\<close> are \<open>9306325 / 2\<^sup>2\<^sup>4\<close> and \<open>13959488 / 2\<^sup>2\<^sup>4\<close>. The length
  of this vector is a little more than \<open>1\<close>, and it is within the reals that round to the
  \<^verbatim>\<open>float\<close> \<open>1\<close>, those from \<open>1 - 2\<^sup>-\<^sup>2\<^sup>5\<close> to \<open>1 + 2\<^sup>-\<^sup>2\<^sup>4\<close>: for the program it is a unit
  normal.
\<close>

lemma normalized_2_0_3:
  "normalized (vsub (QVector3D 2 0 3) (QVector3D 0 0 0)) = QVector3D (2 / sqrt 13) 0 (3 / sqrt 13)"
  by (simp add: normalized_def Let_def vsub_def vlength_def lengthSquared_def)

lemma sqrt_13_less: "sqrt 13 < 30245557 / 8388608"
  by (rule real_less_lsqrt) (simp_all add: power2_eq_square)

lemma dot_above_one:
  "1 < dotProduct (QVector3D (2 / sqrt 13) 0 (3 / sqrt 13))
         (QVector3D (9306325 / 16777216) 0 (13959488 / 16777216))"
proof -
  have "dotProduct (QVector3D (2 / sqrt 13) 0 (3 / sqrt 13))
         (QVector3D (9306325 / 16777216) 0 (13959488 / 16777216))
        = (30245557 / 8388608) / sqrt 13"
    by (simp add: dotProduct_def field_simps)
  moreover have "1 < (30245557 / 8388608) / sqrt 13"
    using sqrt_13_less by (simp add: field_simps)
  ultimately show ?thesis by simp
qed

lemma binary32_unit_length:
  "1 - 1 / 2 ^ 25 \<le> vlength (QVector3D (9306325 / 16777216) 0 (13959488 / 16777216)) \<and>
   vlength (QVector3D (9306325 / 16777216) 0 (13959488 / 16777216)) \<le> 1 + 1 / 2 ^ 24"
proof
  show "1 - 1 / 2 ^ 25 \<le> vlength (QVector3D (9306325 / 16777216) 0 (13959488 / 16777216))"
    unfolding vlength_def
    by (rule real_le_rsqrt) (simp add: lengthSquared_def power2_eq_square)
  show "vlength (QVector3D (9306325 / 16777216) 0 (13959488 / 16777216)) \<le> 1 + 1 / 2 ^ 24"
    unfolding vlength_def
    by (rule real_le_lsqrt) (simp_all add: lengthSquared_def power2_eq_square)
qed

text \<open>
  Claim C6 says that for a unit normal the power is \<open>0\<close> beyond a right angle and
  \<open>1 - |angle| / (pi / 2)\<close> otherwise, always between \<open>0\<close> and \<open>1\<close>. The program does not
  keep that: for the bulb at \<open>(0, 0, 0)\<close>, the point \<open>(2, 0, 3)\<close> and the normal computed for
  that direction, the dot product is above \<open>1\<close>, \<^verbatim>\<open>std::acos\<close> gives a not-a-number, and so
  does \<^verbatim>\<open>Bulb::power\<close>, where the claim gives \<open>1\<close> for the angle \<open>0\<close>. In \<^verbatim>\<open>float\<close> arithmetic
  the dot product at this input is \<open>1 + 2\<^sup>-\<^sup>2\<^sup>3\<close>; in exact arithmetic, as here, it is above
  \<open>1\<close> as well.
\<close>

theorem Bulb_power_not_a_number:
  "Bulb_power_or_nan (Bulb (QVector3D 0 0 0) (QVector3D 1 1 1)) (QVector3D 2 0 3)
     (QVector3D (9306325 / 16777216) 0 (13959488 / 16777216)) = None \<and>
   1 - 1 / 2 ^ 25 \<le> vlength (QVector3D (9306325 / 16777216) 0 (13959488 / 16777216)) \<and>
   vlength (QVector3D (9306325 / 16777216) 0 (13959488 / 16777216)) \<le> 1 + 1 / 2 ^ 24"
proof -
  have "Bulb_power_or_nan (Bulb (QVector3D 0 0 0) (QVector3D 1 1 1)) (QVector3D 2 0 3)
     (QVector3D (9306325 / 16777216) 0 (13959488 / 16777216)) = None"
    unfolding Bulb_power_or_nan_None_iff Light.sel normalized_2_0_3
    using dot_above_one by simp
  with binary32_unit_length show ?thesis by blast
qed



section \<open>The nearest hit\<close>

lemma search_step_shapeIndex:
  "shapeIndex (search_step shapes origin direction st index) = shapeIndex st \<or>
   shapeIndex (search_step shapes origin direction st index) = int index"
  by (simp add: search_step_def Let_def split: option.splits)

lemma search_prefix_Suc:
  "foldl (search_step shapes origin direction) search_init [0..<Suc n] =
   search_step shapes origin direction
     (foldl (search_step shapes origin direction) search_init [0..<n]) n"
  by simp

text \<open>
  The index the loop leaves is \<open>-1\<close> or an index of the list.
\<close>

lemma search_prefix_bounds:
  "- 1 \<le> shapeIndex (foldl (search_step shapes origin direction) search_init [0..<n]) \<and>
   shapeIndex (foldl (search_step shapes origin direction) search_init [0..<n]) < int n"
proof (induction n)
  case 0
  show ?case by (simp add: search_init_def)
next
  case (Suc n)
  show ?case
    using Suc search_step_shapeIndex [of shapes origin direction
        "foldl (search_step shapes origin direction) search_init [0..<n]" n]
    unfolding search_prefix_Suc by auto
qed

lemma nearest_bounds:
  "- 1 \<le> shapeIndex (nearest shapes origin direction) \<and>
   shapeIndex (nearest shapes origin direction) < int (length shapes)"
  unfolding nearest_def by (rule search_prefix_bounds)

lemma search_prefix_no_hit:
  "\<forall>i<n. intersects (shapes ! i) origin direction = None \<Longrightarrow>
   foldl (search_step shapes origin direction) search_init [0..<n] = search_init"
proof (induction n)
  case 0
  show ?case by simp
next
  case (Suc n)
  then have "foldl (search_step shapes origin direction) search_init [0..<n] = search_init"
    by simp
  moreover from Suc.prems have "intersects (shapes ! n) origin direction = None" by simp
  ultimately show ?case
    unfolding search_prefix_Suc by (simp add: search_step_def)
qed

lemma nearest_no_hit:
  assumes "\<forall>shape\<in>set shapes. intersects shape origin direction = None"
  shows "nearest shapes origin direction = search_init"
  unfolding nearest_def
  by (rule search_prefix_no_hit) (use assms in simp)

lemma at_index_nearest:
  assumes "\<not> shapeIndex (nearest shapes origin direction) < 0"
  shows "at_index shapes (shapeIndex (nearest shapes origin direction)) =
           Inr (shapes ! nat (shapeIndex (nearest shapes origin direction)))"
  using assms nearest_bounds [of shapes origin direction] by (simp add: at_index_def)

lemma allBut_length:
  "allBut vector index = Inr res \<Longrightarrow> Suc (length res) = length vector"
  by (auto simp: allBut_def split: if_splits)

lemma allBut_nearest:
  assumes "\<not> shapeIndex (nearest shapes origin direction) < 0"
  shows "\<exists>otherShapes. allBut shapes (shapeIndex (nearest shapes origin direction)) = Inr otherShapes \<and>
           Suc (length otherShapes) = length shapes"
  using assms nearest_bounds [of shapes origin direction] by (auto simp: allBut_def)

lemma nearest_AB:
  "nearest [Sphere (QVector3D 0 0 0) 1 col mir, Sphere (QVector3D (- 5) 0 0) 1 col' mir']
     (QVector3D 3 0 0) (QVector3D (- 1) 0 0) =
   \<lparr>shortestDistanceSquared = 4, shapeIndex = 0, intersectionOrigin = QVector3D 1 0 0,
    normalDirection = QVector3D 1 0 0, reflectionDirection = QVector3D 1 0 0\<rparr>"
  by (simp add: nearest_def numeral_2_eq_2 search_step_def hit_A hit_B search_init_def
      FLT_MAX_def lengthSquared_def vsub_def)

lemma nearest_B_miss:
  "nearest [Sphere (QVector3D (- 5) 0 0) 1 col mir] (QVector3D 1 0 0) (QVector3D 1 0 0) = search_init"
  by (simp add: nearest_def search_step_def mirror_B)

section \<open>Properties of the caster\<close>

lemma cast_unfold_hit:
  assumes "0 \<le> shapeIndex (nearest shapes origin direction)"
    and "at_index shapes (shapeIndex (nearest shapes origin direction)) = Inr shape"
    and "allBut shapes (shapeIndex (nearest shapes origin direction)) = Inr others"
    and "\<not> mirror shape > 0"
  shows "cast shapes lights origin direction colorOnMiss colorOnFullShade =
     Inr (vmul (color shape)
            (colorMask others lights (intersectionOrigin (nearest shapes origin direction))
               (normalDirection (nearest shapes origin direction)) colorOnFullShade))"
  using assms by (subst cast.simps) (simp add: Let_def)

text \<open>
  The two accesses by the index found are in range, so \<open>cast\<close> returns a colour.
\<close>

lemma cast_no_error:
  "\<exists>c. cast shapes lights origin direction colorOnMiss colorOnFullShade = Inr c"
proof (induction shapes lights origin direction colorOnMiss colorOnFullShade rule: cast.induct)
  case (1 shapes lights origin direction colorOnMiss colorOnFullShade)
  define st where "st = nearest shapes origin direction"
  show ?case
  proof (cases "shapeIndex st < 0")
    case True
    then show ?thesis by (subst cast.simps) (simp add: st_def)
  next
    case False
    then have a: "at_index shapes (shapeIndex st) = Inr (shapes ! nat (shapeIndex st))"
      unfolding st_def by (rule at_index_nearest)
    from False obtain otherShapes where o: "allBut shapes (shapeIndex st) = Inr otherShapes"
      unfolding st_def using allBut_nearest by blast
    show ?thesis
    proof (cases "mirror (shapes ! nat (shapeIndex st)) > 0")
      case True
      from "1" [OF st_def False a o True] obtain c where
        "cast otherShapes lights (intersectionOrigin st) (reflectionDirection st)
           colorOnMiss colorOnFullShade = Inr c" by blast
      then show ?thesis
        using False a o True by (subst cast.simps) (simp add: st_def [symmetric])
    next
      case m: False
      show ?thesis
        using False a o m by (subst cast.simps) (simp add: st_def [symmetric])
    qed
  qed
qed

text \<open>
  Claim C5. On the empty list of shapes \<open>cast\<close> returns \<open>colorOnMiss\<close>, whatever the lights
  and the ray; it returns \<open>colorOnMiss\<close> whenever no shape of the list is hit; and for
  every input, a null direction and empty lists included, it returns a colour and no
  error.
\<close>

theorem cast_miss:
  "cast [] lights origin direction colorOnMiss colorOnFullShade = Inr colorOnMiss \<and>
   ((\<forall>shape\<in>set shapes. intersects shape origin direction = None) \<longrightarrow>
      cast shapes lights origin direction colorOnMiss colorOnFullShade = Inr colorOnMiss) \<and>
   (\<exists>c. cast shapes lights origin direction colorOnMiss colorOnFullShade = Inr c)"
proof (intro conjI impI)
  show "cast [] lights origin direction colorOnMiss colorOnFullShade = Inr colorOnMiss"
    by (subst cast.simps) (simp add: nearest_def search_init_def)
  show "cast shapes lights origin direction colorOnMiss colorOnFullShade = Inr colorOnMiss"
    if "\<forall>shape\<in>set shapes. intersects shape origin direction = None"
    by (subst cast.simps) (simp add: nearest_no_hit [OF that] search_init_def)
  show "\<exists>c. cast shapes lights origin direction colorOnMiss colorOnFullShade = Inr c"
    by (rule cast_no_error)
qed

theorem cast_miss_witness:
  "cast [] [Bulb (QVector3D 2 0 0) (QVector3D 1 1 1)] (QVector3D 1 0 0) (QVector3D 1 0 0)
     (QVector3D 0 0 1) (QVector3D (1/10) (1/10) (1/10)) = Inr (QVector3D 0 0 1) \<and>
   cast [Sphere (QVector3D (- 5) 0 0) 1 (QVector3D 1 1 1) 0]
     [Bulb (QVector3D 2 0 0) (QVector3D 1 1 1)] (QVector3D 1 0 0) (QVector3D 1 0 0)
     (QVector3D 0 0 1) (QVector3D (1/10) (1/10) (1/10)) = Inr (QVector3D 0 0 1)"
proof -
  have none: "\<forall>shape\<in>set [Sphere (QVector3D (- 5) 0 0) 1 (QVector3D 1 1 1) 0].
      intersects shape (QVector3D 1 0 0) (QVector3D 1 0 0) = None"
    by (simp add: mirror_B)
  from cast_miss [of "[Bulb (QVector3D 2 0 0) (QVector3D 1 1 1)]" "QVector3D 1 0 0" "QVector3D 1 0 0"
      "QVector3D 0 0 1" "QVector3D (1/10) (1/10) (1/10)"
      "[Sphere (QVector3D (- 5) 0 0) 1 (QVector3D 1 1 1) 0]"] none
  show ?thesis by blast
qed

text \<open>
  With more fuel than there are shapes, the bounded caster is the caster.
\<close>

lemma cast_fuel_enough:
  "length shapes < fuel \<Longrightarrow>
   cast_fuel fuel shapes lights origin direction colorOnMiss colorOnFullShade =
     Some (cast shapes lights origin direction colorOnMiss colorOnFullShade)"
proof (induction fuel arbitrary: shapes origin direction)
  case 0
  then show ?case by simp
next
  case (Suc fuel)
  define st where "st = nearest shapes origin direction"
  have rec: "cast_fuel fuel otherShapes lights (intersectionOrigin st) (reflectionDirection st)
               colorOnMiss colorOnFullShade =
             Some (cast otherShapes lights (intersectionOrigin st) (reflectionDirection st)
               colorOnMiss colorOnFullShade)"
    if "allBut shapes (shapeIndex st) = Inr otherShapes" for otherShapes
  proof -
    from that Suc.prems have "length otherShapes < fuel"
      using allBut_length [OF that] by simp
    then show ?thesis by (rule Suc.IH)
  qed
  show ?case
    apply (subst cast.simps)
    apply (simp add: st_def [symmetric] Let_def rec split: sum.splits)
    done
qed

text \<open>
  Claim C3. \<open>cast\<close> terminates, with a recursion no deeper than the number of shapes:
  \<open>length shapes + 1\<close> open activations, the outermost included, are always enough for the
  result; and when a shape is hit, the list handed to the recursive call is the list
  without the element at the index of that shape, one element shorter.
\<close>

theorem cast_terminates:
  "length shapes < fuel \<Longrightarrow>
   cast_fuel fuel shapes lights origin direction colorOnMiss colorOnFullShade =
     Some (cast shapes lights origin direction colorOnMiss colorOnFullShade) \<and>
   (0 \<le> shapeIndex (nearest shapes origin direction) \<longrightarrow>
      (\<exists>otherShapes. allBut shapes (shapeIndex (nearest shapes origin direction)) = Inr otherShapes \<and>
         Suc (length otherShapes) = length shapes \<and>
         otherShapes = take (nat (shapeIndex (nearest shapes origin direction))) shapes @
                       drop (Suc (nat (shapeIndex (nearest shapes origin direction)))) shapes))"
proof (intro conjI impI)
  assume "length shapes < fuel"
  then show "cast_fuel fuel shapes lights origin direction colorOnMiss colorOnFullShade =
     Some (cast shapes lights origin direction colorOnMiss colorOnFullShade)"
    by (rule cast_fuel_enough)
next
  assume "0 \<le> shapeIndex (nearest shapes origin direction)"
  then show "\<exists>otherShapes. allBut shapes (shapeIndex (nearest shapes origin direction)) = Inr otherShapes \<and>
         Suc (length otherShapes) = length shapes \<and>
         otherShapes = take (nat (shapeIndex (nearest shapes origin direction))) shapes @
                       drop (Suc (nat (shapeIndex (nearest shapes origin direction)))) shapes"
    using nearest_bounds [of shapes origin direction] by (auto simp: allBut_def)
qed

lemma cast_B_miss:
  "cast [Sphere (QVector3D (- 5) 0 0) 1 (QVector3D 1 1 1) 0]
     lights (QVector3D 1 0 0) (QVector3D 1 0 0) miss shade = Inr miss"
  by (subst cast.simps) (simp add: nearest_B_miss search_init_def)

lemma blocked_B:
  "isBlocked [Sphere (QVector3D (- 5) 0 0) 1 (QVector3D 1 1 1) 0] (QVector3D 1 0 0)
     (Bulb (QVector3D 2 0 0) (QVector3D 1 1 1))"
  using shadow_B [of "QVector3D 1 1 1" 0] by (simp add: isBlocked_def)

text \<open>
  The ray towards \<open>A\<close>, now half a mirror: the reflected ray leaves \<open>A\<close> away from \<open>B\<close> and
  misses, and the light is shadowed.
\<close>

lemma cast_AB_mirror:
  "cast [Sphere (QVector3D 0 0 0) 1 (QVector3D 1 (1/2) (1/2)) (1/2),
         Sphere (QVector3D (- 5) 0 0) 1 (QVector3D 1 1 1) 0]
     [Bulb (QVector3D 2 0 0) (QVector3D 1 1 1)] (QVector3D 3 0 0) (QVector3D (- 1) 0 0)
     (QVector3D 0 0 1) (QVector3D (1/10) (1/10) (1/10)) =
   Inr (QVector3D (1/20) (1/40) (3/40))"
proof -
  have mask: "colorMask [Sphere (QVector3D (- 5) 0 0) 1 (QVector3D 1 1 1) 0]
      [Bulb (QVector3D 2 0 0) (QVector3D 1 1 1)] (QVector3D 1 0 0) (QVector3D 1 0 0)
      (QVector3D (1/10) (1/10) (1/10)) = QVector3D (1/10) (1/10) (1/10)"
    by (simp add: colorMask_def light_step_def blocked_B)
  have self: "blend (Sphere (QVector3D 0 0 0) 1 (QVector3D 1 (1/2) (1/2)) (1/2)) (QVector3D 0 0 1)
      = QVector3D (1/2) (1/4) (3/4)"
    by (simp add: blend_def vadd_def scaled_def)
  have idx: "at_index [Sphere (QVector3D 0 0 0) 1 (QVector3D 1 (1/2) (1/2)) (1/2),
         Sphere (QVector3D (- 5) 0 0) 1 (QVector3D 1 1 1) 0] 0 =
       Inr (Sphere (QVector3D 0 0 0) 1 (QVector3D 1 (1/2) (1/2)) (1/2))"
    by (simp add: at_index_def)
  have oth: "allBut [Sphere (QVector3D 0 0 0) 1 (QVector3D 1 (1/2) (1/2)) (1/2),
         Sphere (QVector3D (- 5) 0 0) 1 (QVector3D 1 1 1) 0] 0 =
       Inr [Sphere (QVector3D (- 5) 0 0) 1 (QVector3D 1 1 1) 0]"
    by (simp add: allBut_def)
  show ?thesis
    apply (subst cast.simps)
    apply (simp only: nearest_AB Let_def search.simps idx oth sum.case cast_B_miss)
    apply (simp add: self mask vmul_def)
    done
qed

theorem cast_terminates_witness:
  "cast_fuel 3
     [Sphere (QVector3D 0 0 0) 1 (QVector3D 1 (1/2) (1/2)) (1/2),
      Sphere (QVector3D (- 5) 0 0) 1 (QVector3D 1 1 1) 0]
     [Bulb (QVector3D 2 0 0) (QVector3D 1 1 1)] (QVector3D 3 0 0) (QVector3D (- 1) 0 0)
     (QVector3D 0 0 1) (QVector3D (1/10) (1/10) (1/10)) =
   Some (Inr (QVector3D (1/20) (1/40) (3/40))) \<and>
   (\<exists>otherShapes.
      allBut [Sphere (QVector3D 0 0 0) 1 (QVector3D 1 (1/2) (1/2)) (1/2),
              Sphere (QVector3D (- 5) 0 0) 1 (QVector3D 1 1 1) 0]
        (shapeIndex (nearest [Sphere (QVector3D 0 0 0) 1 (QVector3D 1 (1/2) (1/2)) (1/2),
              Sphere (QVector3D (- 5) 0 0) 1 (QVector3D 1 1 1) 0]
              (QVector3D 3 0 0) (QVector3D (- 1) 0 0))) = Inr otherShapes \<and>
      Suc (length otherShapes) = 2)"
proof -
  let ?shapes = "[Sphere (QVector3D 0 0 0) 1 (QVector3D 1 (1/2) (1/2)) (1/2),
      Sphere (QVector3D (- 5) 0 0) 1 (QVector3D 1 1 1) 0]"
  have fuel: "length ?shapes < 3" by simp
  have hit: "0 \<le> shapeIndex (nearest ?shapes (QVector3D 3 0 0) (QVector3D (- 1) 0 0))"
    by (simp add: nearest_AB)
  have len: "length ?shapes = 2" by simp
  from cast_terminates [OF fuel, of "[Bulb (QVector3D 2 0 0) (QVector3D 1 1 1)]"
      "QVector3D 3 0 0" "QVector3D (- 1) 0 0" "QVector3D 0 0 1" "QVector3D (1/10) (1/10) (1/10)"]
  show ?thesis
    using hit unfolding cast_AB_mirror len by blast
qed

text \<open>
  Claim C9. When the nearest shape hit has \<open>mirror = 0\<close>, \<open>cast\<close> makes no recursive call (a
  single activation is enough) and the colour multiplied with the mask is the colour of
  the shape, unblended; and a recursive call is made (a single activation is not enough)
  exactly when a shape is hit whose \<open>mirror\<close> is greater than \<open>0\<close>.
\<close>

theorem mirror_recursion_iff:
  "(0 \<le> shapeIndex (nearest shapes origin direction) \<and>
    at_index shapes (shapeIndex (nearest shapes origin direction)) = Inr shape \<and>
    mirror shape = 0 \<and>
    allBut shapes (shapeIndex (nearest shapes origin direction)) = Inr others
    \<longrightarrow> cast_fuel (Suc 0) shapes lights origin direction colorOnMiss colorOnFullShade =
          Some (cast shapes lights origin direction colorOnMiss colorOnFullShade) \<and>
        cast shapes lights origin direction colorOnMiss colorOnFullShade =
          Inr (vmul (color shape)
                (colorMask others lights (intersectionOrigin (nearest shapes origin direction))
                   (normalDirection (nearest shapes origin direction)) colorOnFullShade))) \<and>
   (cast_fuel (Suc 0) shapes lights origin direction colorOnMiss colorOnFullShade = None
    \<longleftrightarrow> (\<exists>hitShape. 0 \<le> shapeIndex (nearest shapes origin direction) \<and>
           at_index shapes (shapeIndex (nearest shapes origin direction)) = Inr hitShape \<and>
           mirror hitShape > 0))"
proof (intro conjI impI)
  assume h: "0 \<le> shapeIndex (nearest shapes origin direction) \<and>
    at_index shapes (shapeIndex (nearest shapes origin direction)) = Inr shape \<and>
    mirror shape = 0 \<and>
    allBut shapes (shapeIndex (nearest shapes origin direction)) = Inr others"
  then have c: "cast shapes lights origin direction colorOnMiss colorOnFullShade =
          Inr (vmul (color shape)
                (colorMask others lights (intersectionOrigin (nearest shapes origin direction))
                   (normalDirection (nearest shapes origin direction)) colorOnFullShade))"
    by (intro cast_unfold_hit) simp_all
  then show "cast shapes lights origin direction colorOnMiss colorOnFullShade =
          Inr (vmul (color shape)
                (colorMask others lights (intersectionOrigin (nearest shapes origin direction))
                   (normalDirection (nearest shapes origin direction)) colorOnFullShade))" .
  from h show "cast_fuel (Suc 0) shapes lights origin direction colorOnMiss colorOnFullShade =
          Some (cast shapes lights origin direction colorOnMiss colorOnFullShade)"
    unfolding c by (simp add: Let_def)
next
  define st where "st = nearest shapes origin direction"
  show "cast_fuel (Suc 0) shapes lights origin direction colorOnMiss colorOnFullShade = None
    \<longleftrightarrow> (\<exists>hitShape. 0 \<le> shapeIndex (nearest shapes origin direction) \<and>
           at_index shapes (shapeIndex (nearest shapes origin direction)) = Inr hitShape \<and>
           mirror hitShape > 0)"
  proof (cases "shapeIndex st < 0")
    case True
    then show ?thesis by (simp add: st_def [symmetric] Let_def)
  next
    case False
    then have a: "at_index shapes (shapeIndex st) = Inr (shapes ! nat (shapeIndex st))"
      unfolding st_def by (rule at_index_nearest)
    from False obtain otherShapes where o: "allBut shapes (shapeIndex st) = Inr otherShapes"
      unfolding st_def using allBut_nearest by blast
    show ?thesis
      using False a o by (simp add: st_def [symmetric] Let_def)
  qed
qed

text \<open>
  The scene of \<open>A\<close> and \<open>B\<close> without lights, with \<open>mirror = 0\<close> and with \<open>mirror = 1/2\<close> for \<open>A\<close>.
\<close>

theorem mirror_recursion_iff_witness:
  "cast_fuel (Suc 0)
     [Sphere (QVector3D 0 0 0) 1 (QVector3D 1 (1/2) (1/2)) 0,
      Sphere (QVector3D (- 5) 0 0) 1 (QVector3D 1 1 1) 0]
     [] (QVector3D 3 0 0) (QVector3D (- 1) 0 0)
     (QVector3D 0 0 1) (QVector3D (1/10) (1/10) (1/10)) =
   Some (Inr (QVector3D (1/10) (1/20) (1/20))) \<and>
   cast_fuel (Suc 0)
     [Sphere (QVector3D 0 0 0) 1 (QVector3D 1 (1/2) (1/2)) (1/2),
      Sphere (QVector3D (- 5) 0 0) 1 (QVector3D 1 1 1) 0]
     [] (QVector3D 3 0 0) (QVector3D (- 1) 0 0)
     (QVector3D 0 0 1) (QVector3D (1/10) (1/10) (1/10)) = None"
proof
  let ?A = "Sphere (QVector3D 0 0 0) 1 (QVector3D 1 (1/2) (1/2)) 0"
  let ?A' = "Sphere (QVector3D 0 0 0) 1 (QVector3D 1 (1/2) (1/2)) (1/2)"
  let ?B = "Sphere (QVector3D (- 5) 0 0) 1 (QVector3D 1 1 1) 0"
  let ?O = "QVector3D 3 0 0" and ?D = "QVector3D (- 1) 0 0"
  let ?miss = "QVector3D 0 0 1" and ?shade = "QVector3D (1/10) (1/10) (1/10)"
  have h: "0 \<le> shapeIndex (nearest [?A, ?B] ?O ?D) \<and>
    at_index [?A, ?B] (shapeIndex (nearest [?A, ?B] ?O ?D)) = Inr ?A \<and>
    mirror ?A = 0 \<and>
    allBut [?A, ?B] (shapeIndex (nearest [?A, ?B] ?O ?D)) = Inr [?B]"
    by (simp add: nearest_AB at_index_def allBut_def)
  from mirror_recursion_iff [THEN conjunct1, rule_format, OF h, of "[]" ?miss ?shade]
  have "cast_fuel (Suc 0) [?A, ?B] [] ?O ?D ?miss ?shade =
      Some (Inr (vmul (color ?A)
                (colorMask [?B] [] (intersectionOrigin (nearest [?A, ?B] ?O ?D))
                   (normalDirection (nearest [?A, ?B] ?O ?D)) ?shade)))"
    by (simp only:)
  then show "cast_fuel (Suc 0) [?A, ?B] [] ?O ?D ?miss ?shade =
      Some (Inr (QVector3D (1/10) (1/20) (1/20)))"
    by (simp only: colorMask_def foldl.simps vmul_def Shape.sel QVector3D.sel) simp
next
  let ?A' = "Sphere (QVector3D 0 0 0) 1 (QVector3D 1 (1/2) (1/2)) (1/2)"
  let ?B = "Sphere (QVector3D (- 5) 0 0) 1 (QVector3D 1 1 1) 0"
  let ?O = "QVector3D 3 0 0" and ?D = "QVector3D (- 1) 0 0"
  let ?miss = "QVector3D 0 0 1" and ?shade = "QVector3D (1/10) (1/10) (1/10)"
  have "0 \<le> shapeIndex (nearest [?A', ?B] ?O ?D) \<and>
    at_index [?A', ?B] (shapeIndex (nearest [?A', ?B] ?O ?D)) = Inr ?A' \<and> mirror ?A' > 0"
    by (simp add: nearest_AB at_index_def)
  then have "\<exists>hitShape. 0 \<le> shapeIndex (nearest [?A', ?B] ?O ?D) \<and>
    at_index [?A', ?B] (shapeIndex (nearest [?A', ?B] ?O ?D)) = Inr hitShape \<and> mirror hitShape > 0"
    by (rule exI)
  with mirror_recursion_iff [THEN conjunct2, of "[?A', ?B]" "[]" ?O ?D ?miss ?shade]
  show "cast_fuel (Suc 0) [?A', ?B] [] ?O ?D ?miss ?shade = None"
    by (simp only:)
qed

lemma isBlocked_iff:
  "isBlocked otherShapes point light \<longleftrightarrow>
     (\<exists>otherShape\<in>set otherShapes.
        intersects otherShape point (normalized (vsub point (light_center light))) \<noteq> None)"
  by (simp add: isBlocked_def list_ex_iff)

lemma light_step_blocked:
  "isBlocked otherShapes point light \<Longrightarrow> light_step otherShapes point n acc light = acc"
  by (simp add: light_step_def)

text \<open>
  Claim C4. A light for which some shape other than the one hit intersects the ray from
  the hit point in direction \<open>normalize(hitPoint - light.center)\<close> adds nothing to the colour
  mask: the mask is the same as without that light. In particular, when the shape hit has
  \<open>mirror = 0\<close> and the only light is shadowed so, \<open>cast\<close> returns the colour of the shape
  times \<open>colorOnFullShade\<close>, componentwise.
\<close>

theorem shadowed_light_contributes_nothing:
  "((\<exists>otherShape\<in>set otherShapes.
       intersects otherShape point (normalized (vsub point (light_center light))) \<noteq> None)
    \<longrightarrow> colorMask otherShapes (before @ light # after) point n colorOnFullShade =
        colorMask otherShapes (before @ after) point n colorOnFullShade) \<and>
   (0 \<le> shapeIndex (nearest shapes origin direction) \<and>
    at_index shapes (shapeIndex (nearest shapes origin direction)) = Inr shape \<and>
    mirror shape = 0 \<and>
    allBut shapes (shapeIndex (nearest shapes origin direction)) = Inr others \<and>
    (\<exists>otherShape\<in>set others.
       intersects otherShape (intersectionOrigin (nearest shapes origin direction))
         (normalized (vsub (intersectionOrigin (nearest shapes origin direction))
                        (light_center light'))) \<noteq> None)
    \<longrightarrow> cast shapes [light'] origin direction colorOnMiss colorOnFullShade =
        Inr (vmul (color shape) colorOnFullShade))"
proof (intro conjI impI)
  assume "\<exists>otherShape\<in>set otherShapes.
       intersects otherShape point (normalized (vsub point (light_center light))) \<noteq> None"
  then have "isBlocked otherShapes point light" by (simp add: isBlocked_iff)
  then show "colorMask otherShapes (before @ light # after) point n colorOnFullShade =
        colorMask otherShapes (before @ after) point n colorOnFullShade"
    by (simp add: colorMask_def light_step_blocked)
next
  assume h: "0 \<le> shapeIndex (nearest shapes origin direction) \<and>
    at_index shapes (shapeIndex (nearest shapes origin direction)) = Inr shape \<and>
    mirror shape = 0 \<and>
    allBut shapes (shapeIndex (nearest shapes origin direction)) = Inr others \<and>
    (\<exists>otherShape\<in>set others.
       intersects otherShape (intersectionOrigin (nearest shapes origin direction))
         (normalized (vsub (intersectionOrigin (nearest shapes origin direction))
                        (light_center light'))) \<noteq> None)"
  then have b: "isBlocked others (intersectionOrigin (nearest shapes origin direction)) light'"
    by (simp add: isBlocked_iff)
  from h have "cast shapes [light'] origin direction colorOnMiss colorOnFullShade =
     Inr (vmul (color shape)
            (colorMask others [light'] (intersectionOrigin (nearest shapes origin direction))
               (normalDirection (nearest shapes origin direction)) colorOnFullShade))"
    by (intro cast_unfold_hit) simp_all
  also have "colorMask others [light'] (intersectionOrigin (nearest shapes origin direction))
               (normalDirection (nearest shapes origin direction)) colorOnFullShade = colorOnFullShade"
    by (simp add: colorMask_def light_step_blocked [OF b])
  finally show "cast shapes [light'] origin direction colorOnMiss colorOnFullShade =
        Inr (vmul (color shape) colorOnFullShade)" .
qed

text \<open>
  \<open>B\<close> shadows the light at \<open>(2, 0, 0)\<close> on the point \<open>(1, 0, 0)\<close> of \<open>A\<close>.
\<close>

theorem shadowed_light_contributes_nothing_witness:
  "colorMask [Sphere (QVector3D (- 5) 0 0) 1 (QVector3D 1 1 1) 0]
     [Bulb (QVector3D 2 0 0) (QVector3D 1 1 1)] (QVector3D 1 0 0) (QVector3D 1 0 0)
     (QVector3D (1/10) (1/10) (1/10)) = QVector3D (1/10) (1/10) (1/10) \<and>
   cast [Sphere (QVector3D 0 0 0) 1 (QVector3D 1 (1/2) (1/2)) 0,
         Sphere (QVector3D (- 5) 0 0) 1 (QVector3D 1 1 1) 0]
     [Bulb (QVector3D 2 0 0) (QVector3D 1 1 1)] (QVector3D 3 0 0) (QVector3D (- 1) 0 0)
     (QVector3D 0 0 1) (QVector3D (1/10) (1/10) (1/10)) =
   Inr (QVector3D (1/10) (1/20) (1/20))"
  using shadowed_light_contributes_nothing
    [of "[Sphere (QVector3D (- 5) 0 0) 1 (QVector3D 1 1 1) 0]" "QVector3D 1 0 0"
        "Bulb (QVector3D 2 0 0) (QVector3D 1 1 1)" "[]" "[]" "QVector3D 1 0 0"
        "QVector3D (1/10) (1/10) (1/10)"
        "[Sphere (QVector3D 0 0 0) 1 (QVector3D 1 (1/2) (1/2)) 0,
          Sphere (QVector3D (- 5) 0 0) 1 (QVector3D 1 1 1) 0]"
        "QVector3D 3 0 0" "QVector3D (- 1) 0 0"
        "Sphere (QVector3D 0 0 0) 1 (QVector3D 1 (1/2) (1/2)) 0"
        "[Sphere (QVector3D (- 5) 0 0) 1 (QVector3D 1 1 1) 0]"
        "Bulb (QVector3D 2 0 0) (QVector3D 1 1 1)" "QVector3D 0 0 1"]
    shadow_B [of "QVector3D 1 1 1" 0]
  by (simp add: nearest_AB at_index_def allBut_def colorMask_def vmul_def)

end
